theory Spec2Isabelle
  imports Complex_Main "HOL-Library.Word" "HOL-Library.Multiset"
begin

section \<open>JavaScript values used by the shrink analyzer\<close>

subsection \<open>Strings\<close>

text \<open>
  A JavaScript string is a sequence of 16-bit code units and \<^verbatim>\<open>.length\<close> counts
  them. \<open>str\<close> turns an Isabelle literal into such a sequence.
\<close>

type_synonym jsstring = "16 word list"

definition str :: "string \<Rightarrow> jsstring" where
  "str s = map (\<lambda>c. word_of_nat (of_char c)) s"

subsection \<open>Numbers\<close>

text \<open>
  A JavaScript number is an IEEE double. Finite numbers are modelled by the real
  number they stand for (arithmetic on them is exact: rounding, overflow and the
  sign of zero are not represented); the three special values are kept, because the
  program produces them: \<^verbatim>\<open>Math.max()\<close> of no argument is \<^verbatim>\<open>-Infinity\<close>, a
  division by zero is infinite or \<^verbatim>\<open>NaN\<close>, and arithmetic on a value that is not a
  number gives \<^verbatim>\<open>NaN\<close>.
\<close>

datatype jsnum = Num real | PosInf | NegInf | NaN

fun js_neg :: "jsnum \<Rightarrow> jsnum" where
  "js_neg (Num a) = Num (- a)"
| "js_neg PosInf = NegInf"
| "js_neg NegInf = PosInf"
| "js_neg NaN = NaN"

fun js_add :: "jsnum \<Rightarrow> jsnum \<Rightarrow> jsnum" where
  "js_add (Num a) (Num b) = Num (a + b)"
| "js_add NaN y = NaN"
| "js_add x NaN = NaN"
| "js_add PosInf NegInf = NaN"
| "js_add NegInf PosInf = NaN"
| "js_add PosInf y = PosInf"
| "js_add x PosInf = PosInf"
| "js_add NegInf y = NegInf"
| "js_add x NegInf = NegInf"

definition js_sub :: "jsnum \<Rightarrow> jsnum \<Rightarrow> jsnum" where
  "js_sub x y = js_add x (js_neg y)"

fun is_neg :: "jsnum \<Rightarrow> bool" where
  "is_neg (Num a) = (a < 0)"
| "is_neg NegInf = True"
| "is_neg x = False"

definition inf_of :: "bool \<Rightarrow> jsnum" where
  "inf_of negative = (if negative then NegInf else PosInf)"

fun js_mul :: "jsnum \<Rightarrow> jsnum \<Rightarrow> jsnum" where
  "js_mul (Num a) (Num b) = Num (a * b)"
| "js_mul NaN y = NaN"
| "js_mul x NaN = NaN"
| "js_mul x y = (if x = Num 0 \<or> y = Num 0 then NaN else inf_of (is_neg x \<noteq> is_neg y))"

fun js_div :: "jsnum \<Rightarrow> jsnum \<Rightarrow> jsnum" where
  "js_div NaN y = NaN"
| "js_div x NaN = NaN"
| "js_div (Num a) (Num b) =
     (if b \<noteq> 0 then Num (a / b) else if a = 0 then NaN else inf_of (a < 0))"
| "js_div (Num a) y = Num 0"
| "js_div x (Num b) = inf_of (is_neg x \<noteq> (b < 0))"
| "js_div x y = NaN"

fun js_lt :: "jsnum \<Rightarrow> jsnum \<Rightarrow> bool" where
  "js_lt NaN y = False"
| "js_lt x NaN = False"
| "js_lt (Num a) (Num b) = (a < b)"
| "js_lt x NegInf = False"
| "js_lt NegInf y = True"
| "js_lt PosInf y = False"
| "js_lt (Num a) PosInf = True"

definition js_max :: "jsnum \<Rightarrow> jsnum \<Rightarrow> jsnum" where
  "js_max x y = (if x = NaN \<or> y = NaN then NaN else if js_lt x y then y else x)"

definition js_min :: "jsnum \<Rightarrow> jsnum \<Rightarrow> jsnum" where
  "js_min x y = (if x = NaN \<or> y = NaN then NaN else if js_lt y x then y else x)"

text \<open>
  \<^verbatim>\<open>Math.max(...args)\<close> and \<^verbatim>\<open>Math.min(...args)\<close>: \<^verbatim>\<open>NaN\<close> if an argument is,
  otherwise the largest (smallest) one, and \<^verbatim>\<open>-Infinity\<close> (\<^verbatim>\<open>Infinity\<close>) when there
  is no argument.
\<close>

definition Math_max :: "jsnum list \<Rightarrow> jsnum" where
  "Math_max args = foldl js_max NegInf args"

definition Math_min :: "jsnum list \<Rightarrow> jsnum" where
  "Math_min args = foldl js_min PosInf args"

subsection \<open>Parsed JSON and the built-in operations on it\<close>

datatype json =
    JNull
  | JBool bool
  | JNum real
  | JStr jsstring
  | JArr "json list"
  | JObj "(jsstring \<times> json) list"

text \<open>
  The program calls \<^verbatim>\<open>JSON.parse\<close> and relies on two implicit conversions of the
  language. They belong to the runtime, not to the repository, so the model takes
  them as parameters and every general theorem below holds for any behaviour of them:
  \<^item> \<open>JSON_parse\<close>: \<^verbatim>\<open>JSON.parse\<close>, \<open>None\<close> when it throws a \<^verbatim>\<open>SyntaxError\<close>;
  \<^item> \<open>ToNumber\<close>: the number a parsed value becomes in arithmetic;
  \<^item> \<open>ToString\<close>: the string a parsed value becomes when it is used as a property key.
  The members of a \<open>JObj\<close> are listed in lookup order (for a repeated key the value
  \<^verbatim>\<open>JSON.parse\<close> keeps comes first).
\<close>

record builtins =
  JSON_parse :: "jsstring \<Rightarrow> json option"
  ToNumber :: "json \<Rightarrow> jsnum"
  ToString :: "json \<Rightarrow> jsstring"

datatype error = SyntaxError | TypeError

text \<open>
  \<^verbatim>\<open>v.length\<close> of a parsed value \<open>v\<close>, as the number the following division makes
  of it. Reading a member of \<^verbatim>\<open>null\<close> throws; a number or a boolean has no such
  member (\<^verbatim>\<open>undefined\<close>, which is \<^verbatim>\<open>NaN\<close> in arithmetic); an object has it only as
  a member of its own.
\<close>

fun js_length :: "builtins \<Rightarrow> json \<Rightarrow> error + jsnum" where
  "js_length B (JArr xs) = Inr (Num (real (length xs)))"
| "js_length B (JStr s) = Inr (Num (real (length s)))"
| "js_length B JNull = Inl TypeError"
| "js_length B (JBool b) = Inr NaN"
| "js_length B (JNum r) = Inr NaN"
| "js_length B (JObj members) =
     (case map_of members (str ''length'') of
        None \<Rightarrow> Inr NaN
      | Some v \<Rightarrow> Inr (ToNumber B v))"

text \<open>The property key that an element of a parsed array denotes.\<close>

fun property_key :: "builtins \<Rightarrow> json \<Rightarrow> jsstring" where
  "property_key B (JStr s) = s"
| "property_key B v = ToString B v"

section \<open>The data model\<close>

text \<open>
  \<^verbatim>\<open>ObservationRecord\<close>, with the columns the analyzer reads. A column that may be
  \<^verbatim>\<open>null\<close> is an option. Timestamps are epoch milliseconds.
\<close>

record observation =
  obs_id :: int
  obs_title :: "jsstring option"
  obs_subtitle :: "jsstring option"
  obs_narrative :: "jsstring option"
  obs_facts :: "jsstring option"
  obs_concepts :: "jsstring option"
  obs_type :: jsstring
  obs_project :: jsstring
  obs_created_at_epoch :: int

record ShrinkCandidate =
  c_id :: int
  c_title :: "jsstring option"
  c_type :: jsstring
  c_project :: jsstring
  c_created_at_epoch :: int
  c_score :: jsnum
  c_reasons :: "jsstring list"
  c_tokenCount :: nat

record ShrinkAnalysis =
  candidates :: "ShrinkCandidate list"
  totalTokensSaved :: nat
  observationsToRemove :: nat
  totalObservations :: nat

text \<open>An option that the caller leaves out is \<open>None\<close>; \<open>analyze\<close> supplies the default.\<close>

record ShrinkOptions =
  opt_project :: "jsstring option"
  opt_targetReduction :: "real option"
  opt_minAge :: "real option"
  opt_maxAge :: "real option"
  opt_minScore :: "real option"

section \<open>The weight tables\<close>

definition TYPE_WEIGHTS :: "(jsstring \<times> real) list" where
  "TYPE_WEIGHTS =
    [(str ''decision'', 1.0),
     (str ''bugfix'', 0.9),
     (str ''feature'', 0.8),
     (str ''refactor'', 0.7),
     (str ''discovery'', 0.5),
     (str ''change'', 0.4)]"

definition CONCEPT_WEIGHTS :: "(jsstring \<times> real) list" where
  "CONCEPT_WEIGHTS =
    [(str ''problem-solution'', 1.0),
     (str ''trade-off'', 0.9),
     (str ''why-it-exists'', 0.8),
     (str ''gotcha'', 0.8),
     (str ''how-it-works'', 0.7),
     (str ''pattern'', 0.6),
     (str ''what-changed'', 0.4)]"

text \<open>
  Both tables are object literals, so they inherit the members of
  \<^verbatim>\<open>Object.prototype\<close>. Indexing a table with one of these names finds a function
  (for \<^verbatim>\<open>__proto__\<close>, an object) instead of \<^verbatim>\<open>undefined\<close>; the operator \<^verbatim>\<open>??\<close>
  keeps it, and every use the program makes of the result converts it to \<^verbatim>\<open>NaN\<close>.
\<close>

definition Object_prototype :: "jsstring list" where
  "Object_prototype =
    [str ''constructor'', str ''hasOwnProperty'', str ''isPrototypeOf'',
     str ''propertyIsEnumerable'', str ''toLocaleString'', str ''toString'',
     str ''valueOf'', str ''__proto__'', str ''__defineGetter__'',
     str ''__defineSetter__'', str ''__lookupGetter__'', str ''__lookupSetter__'']"

text \<open>\<^verbatim>\<open>TABLE[key] ?? dflt\<close>, as a number.\<close>

definition index_or :: "(jsstring \<times> real) list \<Rightarrow> jsstring \<Rightarrow> real \<Rightarrow> jsnum" where
  "index_or table key dflt =
     (case map_of table key of
        Some w \<Rightarrow> Num w
      | None \<Rightarrow> if key \<in> set Object_prototype then NaN else Num dflt)"

section \<open>Scoring\<close>

text \<open>
  \<^verbatim>\<open>obs.facts ? JSON.parse(obs.facts).length : 0\<close>. The empty string is falsy, like
  \<^verbatim>\<open>null\<close>. The parse is not guarded: its exception leaves the function.
\<close>

definition facts_length :: "builtins \<Rightarrow> observation \<Rightarrow> error + jsnum" where
  "facts_length B obs =
     (case obs_facts obs of
        None \<Rightarrow> Inr (Num 0)
      | Some facts \<Rightarrow>
          if facts = [] then Inr (Num 0)
          else (case JSON_parse B facts of
                  None \<Rightarrow> Inl SyntaxError
                | Some v \<Rightarrow> js_length B v))"

text \<open>
  The guarded block of \<open>calculateImportanceScore\<close>: the new score, or \<open>None\<close> when
  the block throws (\<^verbatim>\<open>JSON.parse\<close> fails, or the parsed value has no callable
  \<^verbatim>\<open>map\<close>, which only an array has) and the \<^verbatim>\<open>catch\<close> skips it.
\<close>

definition conceptStep :: "builtins \<Rightarrow> jsstring \<Rightarrow> jsnum \<Rightarrow> jsnum option" where
  "conceptStep B text score =
     (case JSON_parse B text of
        Some (JArr concepts) \<Rightarrow>
          let maxConceptWeight =
                Math_max (map (\<lambda>c. index_or CONCEPT_WEIGHTS (property_key B c) 0.5) concepts)
          in Some (js_add score (js_mul (js_sub maxConceptWeight (Num 0.5)) (Num 0.2)))
      | _ \<Rightarrow> None)"

definition calculateImportanceScore ::
    "builtins \<Rightarrow> observation \<Rightarrow> int \<Rightarrow> real \<Rightarrow> error + jsnum" where
  "calculateImportanceScore B obs now maxAgeMs =
     (let score = Num 0.5;
          typeWeight = index_or TYPE_WEIGHTS (obs_type obs) 0.5;
          score = js_add score (js_mul (js_sub typeWeight (Num 0.5)) (Num 0.3));
          ageMs = Num (real_of_int (now - obs_created_at_epoch obs));
          ageDecay = Math_max [Num 0, js_sub (Num 1) (js_div ageMs (Num maxAgeMs))];
          score = js_mul score (js_add (Num 0.5) (js_mul ageDecay (Num 0.5)));
          score = (case obs_concepts obs of
                     None \<Rightarrow> score
                   | Some text \<Rightarrow>
                       if text = [] then score
                       else (case conceptStep B text score of
                               Some score' \<Rightarrow> score'
                             | None \<Rightarrow> score));
          narrativeLength = (case obs_narrative obs of
                               None \<Rightarrow> Num 0
                             | Some narrative \<Rightarrow> Num (real (length narrative)))
      in case facts_length B obs of
           Inl e \<Rightarrow> Inl e
         | Inr factsCount \<Rightarrow>
             let contentScore =
                   Math_min [Num 1,
                     js_div (js_add (js_div narrativeLength (Num 500))
                                    (js_div factsCount (Num 5))) (Num 2)];
                 score = js_add score (js_mul contentScore (Num 0.1))
             in Inr (Math_max [Num 0, Math_min [Num 1, score]]))"

section \<open>Token estimate\<close>

text \<open>\<^verbatim>\<open>if (field) text += field + ' '\<close>: a field that is \<^verbatim>\<open>null\<close> or empty is skipped.\<close>

definition append_field :: "jsstring \<Rightarrow> jsstring option \<Rightarrow> jsstring" where
  "append_field text field =
     (case field of
        None \<Rightarrow> text
      | Some s \<Rightarrow> if s = [] then text else text @ s @ str '' '')"

definition estimateTokens :: "observation \<Rightarrow> nat" where
  "estimateTokens obs =
     (let text = [];
          text = append_field text (obs_title obs);
          text = append_field text (obs_subtitle obs);
          text = append_field text (obs_narrative obs);
          text = append_field text (obs_facts obs);
          text = append_field text (obs_concepts obs)
      in nat \<lceil>real (length text) / 4\<rceil>)"

text \<open>
  The estimate as the specification words it: the fields that are present, joined
  with separating spaces, and a quarter of the character count rounded up.
\<close>

fun join_with :: "jsstring \<Rightarrow> jsstring list \<Rightarrow> jsstring" where
  "join_with sep [] = []"
| "join_with sep [s] = s"
| "join_with sep (s # t # rest) = s @ sep @ join_with sep (t # rest)"

definition present_fields :: "observation \<Rightarrow> jsstring list" where
  "present_fields obs =
     concat (map (\<lambda>field. case field of None \<Rightarrow> [] | Some s \<Rightarrow> [s])
       [obs_title obs, obs_subtitle obs, obs_narrative obs, obs_facts obs, obs_concepts obs])"

definition estimateTokens_spec :: "observation \<Rightarrow> nat" where
  "estimateTokens_spec obs =
     nat \<lceil>real (length (join_with (str '' '') (present_fields obs))) / 4\<rceil>"

section \<open>Reasons\<close>

text \<open>
  The decimal numeral of an integer, which is what a template literal prints for an
  integral number below \<open>10\<^sup>2\<^sup>1\<close> in magnitude (a difference of epoch timestamps in
  days is far below).
\<close>

fun decimal :: "nat \<Rightarrow> jsstring" where
  "decimal n =
     (if n < 10 then [word_of_nat (48 + n)]
      else decimal (n div 10) @ [word_of_nat (48 + n mod 10)])"

declare decimal.simps [simp del]

definition Number_toString :: "int \<Rightarrow> jsstring" where
  "Number_toString n = (if n < 0 then str ''-'' @ decimal (nat (- n)) else decimal (nat n))"

definition generateReasons :: "observation \<Rightarrow> jsnum \<Rightarrow> int \<Rightarrow> real \<Rightarrow> jsstring list" where
  "generateReasons obs score now maxAgeMs =
     (let reasons = [];
          ageMs = now - obs_created_at_epoch obs;
          ageDays = \<lfloor>real_of_int ageMs / (24 * 60 * 60 * 1000)\<rfloor>;
          reasons = (if ageDays > 30
                     then reasons @ [Number_toString ageDays @ str '' days old'']
                     else reasons);
          typeWeight = index_or TYPE_WEIGHTS (obs_type obs) 0.5;
          reasons = (if js_lt typeWeight (Num 0.6)
                     then reasons @ [str ''Low-priority type: '' @ obs_type obs]
                     else reasons);
          narrativeLength = (case obs_narrative obs of
                               None \<Rightarrow> 0
                             | Some narrative \<Rightarrow> length narrative);
          reasons = (if narrativeLength < 50
                     then reasons @ [str ''Minimal content'']
                     else reasons);
          reasons = (if js_lt score (Num 0.2)
                     then reasons @ [str ''Very low importance score'']
                     else reasons)
      in reasons)"

section \<open>The store and its queries\<close>

text \<open>
  The \<^verbatim>\<open>observations\<close> table is the list of its rows. The two statements that
  \<open>analyze\<close> prepares are translated clause by clause; rows with equal timestamps
  come out of \<^verbatim>\<open>ORDER BY\<close> in table order.
\<close>

type_synonym database = "observation list"

text \<open>
  \<^verbatim>\<open>SELECT * FROM observations WHERE created_at_epoch < ? [AND project = ?]
  ORDER BY created_at_epoch ASC\<close>
\<close>

definition select_observations :: "database \<Rightarrow> real \<Rightarrow> jsstring option \<Rightarrow> observation list" where
  "select_observations db bound scope =
     sort_key obs_created_at_epoch
       (filter (\<lambda>row. real_of_int (obs_created_at_epoch row) < bound \<and>
                       (case scope of None \<Rightarrow> True | Some p \<Rightarrow> obs_project row = p)) db)"

text \<open>\<^verbatim>\<open>SELECT COUNT(*) as count FROM observations [WHERE project = ?]\<close>\<close>

definition count_observations :: "database \<Rightarrow> jsstring option \<Rightarrow> nat" where
  "count_observations db scope =
     length (filter (\<lambda>row. case scope of None \<Rightarrow> True | Some p \<Rightarrow> obs_project row = p) db)"

section \<open>Candidate selection\<close>

text \<open>
  \<^verbatim>\<open>Array.prototype.sort\<close> with a comparator: the language requires a stable sort
  whenever the comparator is consistent. The model is the insertion sort that moves
  an element past its successors only while the comparator is positive.
\<close>

fun js_insort :: "('a \<Rightarrow> 'a \<Rightarrow> jsnum) \<Rightarrow> 'a \<Rightarrow> 'a list \<Rightarrow> 'a list" where
  "js_insort cmp x [] = [x]"
| "js_insort cmp x (y # ys) =
     (if js_lt (Num 0) (cmp x y) then y # js_insort cmp x ys else x # y # ys)"

definition Array_sort :: "('a \<Rightarrow> 'a \<Rightarrow> jsnum) \<Rightarrow> 'a list \<Rightarrow> 'a list" where
  "Array_sort cmp xs = foldr (js_insort cmp) xs []"

text \<open>The \<^verbatim>\<open>for\<close> loop of \<open>analyze\<close>; an exception of the scoring leaves the loop.\<close>

fun analyze_loop ::
    "builtins \<Rightarrow> int \<Rightarrow> real \<Rightarrow> real \<Rightarrow> observation list \<Rightarrow> ShrinkCandidate list
       \<Rightarrow> error + ShrinkCandidate list" where
  "analyze_loop B now maxAgeMs minScore [] cands = Inr cands"
| "analyze_loop B now maxAgeMs minScore (obs # rest) cands =
     (case calculateImportanceScore B obs now maxAgeMs of
        Inl e \<Rightarrow> Inl e
      | Inr score \<Rightarrow>
          let tokenCount = estimateTokens obs
          in if js_lt score (Num minScore)
             then let reasons = generateReasons obs score now maxAgeMs
                  in analyze_loop B now maxAgeMs minScore rest
                       (cands @
                        [\<lparr>c_id = obs_id obs,
                          c_title = obs_title obs,
                          c_type = obs_type obs,
                          c_project = obs_project obs,
                          c_created_at_epoch = obs_created_at_epoch obs,
                          c_score = score,
                          c_reasons = reasons,
                          c_tokenCount = tokenCount\<rparr>])
             else analyze_loop B now maxAgeMs minScore rest cands)"

text \<open>A destructured option with its default.\<close>

definition option_or :: "'a option \<Rightarrow> 'a \<Rightarrow> 'a" where
  "option_or v dflt = (case v of None \<Rightarrow> dflt | Some x \<Rightarrow> x)"

text \<open>
  \<^verbatim>\<open>if (project)\<close> and \<^verbatim>\<open>project ? ... : ...\<close> test the option for truthiness:
  the empty string takes the unscoped branch, like a missing project.
\<close>

definition scope_of :: "jsstring option \<Rightarrow> jsstring option" where
  "scope_of project =
     (case project of
        None \<Rightarrow> None
      | Some p \<Rightarrow> if p = [] then None else Some p)"

text \<open>
  \<open>analyze\<close>, with the clock reading \<open>now\<close> as an argument. The options are
  finite numbers, so the target count is an integer of at least one and
  \<^verbatim>\<open>slice(0, targetCount)\<close> is a prefix.
\<close>

definition analyze ::
    "builtins \<Rightarrow> database \<Rightarrow> int \<Rightarrow> ShrinkOptions \<Rightarrow> error + ShrinkAnalysis" where
  "analyze B db now options =
     (let project = opt_project options;
          targetReduction = option_or (opt_targetReduction options) 0.3;
          minAge = option_or (opt_minAge options) 7;
          maxAge = option_or (opt_maxAge options) 180;
          minScore = option_or (opt_minScore options) 0.6;
          minAgeMs = minAge * 24 * 60 * 60 * 1000;
          maxAgeMs = maxAge * 24 * 60 * 60 * 1000;
          observations =
            select_observations db (real_of_int now - minAgeMs) (scope_of project);
          totalObservations = count_observations db (scope_of project)
      in case analyze_loop B now maxAgeMs minScore observations [] of
           Inl e \<Rightarrow> Inl e
         | Inr cands \<Rightarrow>
             let cands = Array_sort (\<lambda>a b. js_sub (c_score a) (c_score b)) cands;
                 targetCount = max 1 \<lfloor>real totalObservations * targetReduction\<rfloor>;
                 finalCandidates = take (nat targetCount) cands;
                 totalTokensSaved = foldl (\<lambda>sum c. sum + c_tokenCount c) 0 finalCandidates
             in Inr \<lparr>candidates = finalCandidates,
                     totalTokensSaved = totalTokensSaved,
                     observationsToRemove = length finalCandidates,
                     totalObservations = totalObservations\<rparr>)"

section \<open>Execution\<close>

record ShrinkResult =
  deleted :: nat
  failed :: nat

text \<open>
  \<open>executeShrink\<close> calls \<^verbatim>\<open>this.sessionStore.deleteObservationById\<close>, which is
  not among the source files; the loop takes it as the parameter \<open>delete\<close>, a
  function from the store and an identifier to the new store and the boolean.
\<close>

fun executeShrink_loop ::
    "(database \<Rightarrow> int \<Rightarrow> database \<times> bool) \<Rightarrow> database \<Rightarrow> int list \<Rightarrow> nat \<Rightarrow> nat
       \<Rightarrow> database \<times> ShrinkResult" where
  "executeShrink_loop delete db [] del fail = (db, \<lparr>deleted = del, failed = fail\<rparr>)"
| "executeShrink_loop delete db (ident # rest) del fail =
     (let (db', success) = delete db ident
      in if success then executeShrink_loop delete db' rest (del + 1) fail
         else executeShrink_loop delete db' rest del (fail + 1))"

definition executeShrink ::
    "(database \<Rightarrow> int \<Rightarrow> database \<times> bool) \<Rightarrow> database \<Rightarrow> int list
       \<Rightarrow> database \<times> ShrinkResult" where
  "executeShrink delete db observationIds = executeShrink_loop delete db observationIds 0 0"

text \<open>
  Modelled from the spec: \<^verbatim>\<open>SessionStore.deleteObservationById\<close> is not among the
  source files. The specification describes it as a point-delete by identifier that
  returns a success/failure boolean, and says that deleting an identifier that no
  longer exists is reported as a failure, not raised as a fault.
\<close>

definition deleteObservationById :: "database \<Rightarrow> int \<Rightarrow> database \<times> bool" where
  "deleteObservationById db ident =
     (if ident \<in> obs_id ` set db
      then (filter (\<lambda>row. obs_id row \<noteq> ident) db, True)
      else (db, False))"

section \<open>Notions used in the statements\<close>

text \<open>The candidate that the loop pushes for an observation and its score.\<close>

definition make_candidate :: "observation \<Rightarrow> jsnum \<Rightarrow> int \<Rightarrow> real \<Rightarrow> ShrinkCandidate" where
  "make_candidate obs s now maxAgeMs =
     \<lparr>c_id = obs_id obs,
      c_title = obs_title obs,
      c_type = obs_type obs,
      c_project = obs_project obs,
      c_created_at_epoch = obs_created_at_epoch obs,
      c_score = s,
      c_reasons = generateReasons obs s now maxAgeMs,
      c_tokenCount = estimateTokens obs\<rparr>"




text \<open>The observations that a call of \<open>analyze\<close> scans, in scan order.\<close>

definition eligible :: "database \<Rightarrow> int \<Rightarrow> ShrinkOptions \<Rightarrow> observation list" where
  "eligible db now options =
     select_observations db
       (real_of_int now - option_or (opt_minAge options) 7 * 24 * 60 * 60 * 1000)
       (scope_of (opt_project options))"


definition targetCount :: "database \<Rightarrow> ShrinkOptions \<Rightarrow> nat" where
  "targetCount db options =
     nat (max 1 \<lfloor>real (count_observations db (scope_of (opt_project options)))
                   * option_or (opt_targetReduction options) 0.3\<rfloor>)"

text \<open>The weight of a tag that is not a member name of \<^verbatim>\<open>Object.prototype\<close>.\<close>

definition concept_weight :: "jsstring \<Rightarrow> real" where
  "concept_weight tag = (case map_of CONCEPT_WEIGHTS tag of Some w \<Rightarrow> w | None \<Rightarrow> 0.5)"

text \<open>
  \<open>no_higher x y\<close>: the score \<open>x\<close> is not above \<open>y\<close>, both being the same special
  value or finite numbers in that order.
\<close>

definition no_higher :: "jsnum \<Rightarrow> jsnum \<Rightarrow> bool" where
  "no_higher x y = (x = y \<or> (case (x, y) of (Num a, Num b) \<Rightarrow> a \<le> b | _ \<Rightarrow> False))"

section \<open>Sample values\<close>

text \<open>
  The built-in operations on the texts that the examples use: \<^verbatim>\<open>JSON.parse\<close> returns
  the empty array for \<^verbatim>\<open>[]\<close> and a one-element array for \<^verbatim>\<open>["gotcha"]\<close> and for
  \<^verbatim>\<open>["constructor"]\<close>. The only other text that an example hands to it is
  \<^verbatim>\<open>{oops\<close>, which is not JSON. No example consults the two conversions.
\<close>

definition sample_builtins :: builtins where
  "sample_builtins =
     \<lparr>JSON_parse =
        (\<lambda>text. if text = str ''[]'' then Some (JArr [])
                 else if text = str ''[\"gotcha\"]'' then Some (JArr [JStr (str ''gotcha'')])
                 else if text = str ''[\"constructor\"]''
                   then Some (JArr [JStr (str ''constructor'')])
                 else None),
      ToNumber = (\<lambda>v. NaN),
      ToString = (\<lambda>v. [])\<rparr>"

definition sample_now :: int where
  "sample_now = 1700000000000"

definition sample_maxAgeMs :: real where
  "sample_maxAgeMs = 180 * 24 * 60 * 60 * 1000"

text \<open>A change of 400 days ago with a narrative of 20 characters, no tags, no facts.\<close>

definition obs_change :: observation where
  "obs_change =
     \<lparr>obs_id = 1, obs_title = None, obs_subtitle = None,
      obs_narrative = Some (str ''Renamed two symbols.''),
      obs_facts = None, obs_concepts = None,
      obs_type = str ''change'', obs_project = str ''demo'',
      obs_created_at_epoch = sample_now - 400 * (24 * 60 * 60 * 1000)\<rparr>"

text \<open>A tagged decision of ten days ago.\<close>

definition obs_decision :: observation where
  "obs_decision =
     \<lparr>obs_id = 2, obs_title = Some (str ''Use SQLite''), obs_subtitle = None,
      obs_narrative = None,
      obs_facts = None, obs_concepts = Some (str ''[\"gotcha\"]''),
      obs_type = str ''decision'', obs_project = str ''demo'',
      obs_created_at_epoch = sample_now - 10 * (24 * 60 * 60 * 1000)\<rparr>"

text \<open>A bugfix of 100 days ago whose concepts column holds the empty array.\<close>

definition obs_untagged :: observation where
  "obs_untagged =
     \<lparr>obs_id = 3, obs_title = Some (str ''abcd''), obs_subtitle = None,
      obs_narrative = None,
      obs_facts = None, obs_concepts = Some (str ''[]''),
      obs_type = str ''bugfix'', obs_project = str ''other'',
      obs_created_at_epoch = sample_now - 100 * (24 * 60 * 60 * 1000)\<rparr>"

text \<open>A change of yesterday.\<close>

definition obs_recent :: observation where
  "obs_recent =
     \<lparr>obs_id = 4, obs_title = None, obs_subtitle = None,
      obs_narrative = None,
      obs_facts = None, obs_concepts = None,
      obs_type = str ''change'', obs_project = str ''demo'',
      obs_created_at_epoch = sample_now - 1 * (24 * 60 * 60 * 1000)\<rparr>"

definition sample_db :: database where
  "sample_db = [obs_decision, obs_change, obs_recent, obs_untagged]"

definition sample_options :: ShrinkOptions where
  "sample_options =
     \<lparr>opt_project = None, opt_targetReduction = Some 0.5, opt_minAge = None,
      opt_maxAge = None, opt_minScore = None\<rparr>"

definition sample_result :: ShrinkAnalysis where
  "sample_result =
     \<lparr>candidates =
        [make_candidate obs_untagged (Num 0) sample_now sample_maxAgeMs,
         make_candidate obs_change (Num 0.237) sample_now sample_maxAgeMs],
      totalTokensSaved = 8, observationsToRemove = 2, totalObservations = 4\<rparr>"

definition sample_candidate :: ShrinkCandidate where
  "sample_candidate = make_candidate obs_change (Num 0.237) sample_now sample_maxAgeMs"

text \<open>Observations with a column that is not JSON.\<close>

definition obs_bad_facts :: observation where
  "obs_bad_facts = obs_change\<lparr>obs_facts := Some (str ''{oops'')\<rparr>"

definition obs_bad_concepts :: observation where
  "obs_bad_concepts = obs_change\<lparr>obs_concepts := Some (str ''{oops'')\<rparr>"

definition obs_untagged_bad_facts :: observation where
  "obs_untagged_bad_facts = obs_untagged\<lparr>obs_facts := Some (str ''{oops'')\<rparr>"

text \<open>A tag that is the name of a member of \<^verbatim>\<open>Object.prototype\<close>.\<close>

definition obs_inherited_tag :: observation where
  "obs_inherited_tag = obs_decision\<lparr>obs_concepts := Some (str ''[\"constructor\"]'')\<rparr>"

text \<open>An observation with a title of four characters and nothing else.\<close>

definition obs_title_only :: observation where
  "obs_title_only =
     \<lparr>obs_id = 5, obs_title = Some (str ''abcd''), obs_subtitle = None,
      obs_narrative = None, obs_facts = None, obs_concepts = None,
      obs_type = str ''feature'', obs_project = str ''demo'',
      obs_created_at_epoch = sample_now - 50 * (24 * 60 * 60 * 1000)\<rparr>"

section \<open>Auxiliary facts\<close>

lemmas sample_defs =
  sample_builtins_def sample_now_def sample_maxAgeMs_def obs_change_def obs_decision_def
  obs_untagged_def obs_recent_def sample_db_def sample_options_def sample_result_def
  sample_candidate_def obs_bad_facts_def obs_bad_concepts_def obs_untagged_bad_facts_def
  obs_inherited_tag_def obs_title_only_def

lemmas scoring_defs =
  calculateImportanceScore_def conceptStep_def facts_length_def index_or_def
  TYPE_WEIGHTS_def CONCEPT_WEIGHTS_def Object_prototype_def str_def
  Math_max_def Math_min_def js_max_def js_min_def js_sub_def inf_of_def Let_def

lemma decimal_digit: "n < 10 \<Longrightarrow> decimal n = [word_of_nat (48 + n)]"
  by (simp add: decimal.simps [of n])

lemma decimal_400: "decimal 400 = str ''400''"
  by (simp add: decimal.simps [of 400] decimal.simps [of 40] decimal_digit str_def)

lemma decimal_100: "decimal 100 = str ''100''"
  by (simp add: decimal.simps [of 100] decimal.simps [of 10] decimal_digit str_def)

lemma index_change: "index_or TYPE_WEIGHTS (str ''change'') dflt = Num 0.4"
  by (simp add: index_or_def TYPE_WEIGHTS_def str_def)

lemma clamp_value:
  "Math_max [Num 0, Math_min [Num 1, s]] =
     (case s of Num r \<Rightarrow> Num (max 0 (min 1 r)) | PosInf \<Rightarrow> Num 1
              | NegInf \<Rightarrow> Num 0 | NaN \<Rightarrow> NaN)"
  by (cases s) (auto simp: Math_max_def Math_min_def js_max_def js_min_def)


subsection \<open>The loop of \<open>analyze\<close>\<close>


lemma analyze_loop_returns:
  assumes "\<And>obs. obs \<in> set observations \<Longrightarrow>
             \<exists>s. calculateImportanceScore B obs now maxAgeMs = Inr s"
  shows "\<exists>cands. analyze_loop B now maxAgeMs minScore observations acc = Inr cands"
  using assms
proof (induction observations arbitrary: acc)
  case Nil
  then show ?case by simp
next
  case (Cons obs rest)
  then obtain s where s: "calculateImportanceScore B obs now maxAgeMs = Inr s"
    by (meson list.set_intros(1))
  have "\<And>acc. \<exists>cands. analyze_loop B now maxAgeMs minScore rest acc = Inr cands"
    using Cons.prems by (intro Cons.IH) auto
  then show ?case using s by (simp add: Let_def)
qed

lemma analyze_loop_throws:
  assumes "obs \<in> set observations" "calculateImportanceScore B obs now maxAgeMs = Inl e"
  shows "\<exists>e'. analyze_loop B now maxAgeMs minScore observations acc = Inl e'"
  using assms
proof (induction observations arbitrary: acc)
  case Nil
  then show ?case by simp
next
  case (Cons a rest)
  show ?case
  proof (cases "calculateImportanceScore B a now maxAgeMs")
    case (Inl e0)
    then show ?thesis by simp
  next
    case (Inr s)
    with Cons.prems have "obs \<in> set rest" by auto
    from Cons.IH [OF this Cons.prems(2)] Inr show ?thesis by (simp add: Let_def)
  qed
qed


subsection \<open>The sort\<close>






subsection \<open>What \<open>analyze\<close> returns\<close>



lemma calculateImportanceScore_returns:
  assumes "facts_length B obs = Inr n"
  shows "\<exists>s. calculateImportanceScore B obs now maxAgeMs = Inr s"
  using assms by (simp add: calculateImportanceScore_def Let_def)

text \<open>\<open>analyze\<close> returns when the facts of every scanned observation can be counted.\<close>

lemma analyze_returns:
  assumes "\<And>obs. obs \<in> set (eligible db now options) \<Longrightarrow> \<exists>n. facts_length B obs = Inr n"
  shows "\<exists>result. analyze B db now options = Inr result"
proof -
  have "\<exists>cands. analyze_loop B now (option_or (opt_maxAge options) 180 * 24 * 60 * 60 * 1000)
      (option_or (opt_minScore options) 0.6) (eligible db now options) [] = Inr cands"
    using assms by (intro analyze_loop_returns) (blast dest: calculateImportanceScore_returns)
  then show ?thesis
    by (auto simp: analyze_def eligible_def Let_def)
qed



subsection \<open>The weight tables\<close>

lemma index_or_cases:
  "index_or table key dflt = NaN \<and> key \<in> set Object_prototype \<or>
   index_or table key dflt = Num dflt \<and> key \<notin> set Object_prototype \<or>
   (\<exists>w. index_or table key dflt = Num w \<and> (key, w) \<in> set table)"
  by (auto simp: index_or_def split: option.splits dest: map_of_SomeD)

lemma TYPE_WEIGHTS_bounds: "(key, w) \<in> set TYPE_WEIGHTS \<Longrightarrow> 0.4 \<le> w \<and> w \<le> 1"
  by (auto simp: TYPE_WEIGHTS_def)

lemma type_weight_cases:
  "index_or TYPE_WEIGHTS key 0.5 = NaN \<and> key \<in> set Object_prototype \<or>
   (\<exists>w. index_or TYPE_WEIGHTS key 0.5 = Num w \<and> 0.4 \<le> w \<and> w \<le> 1)"
  using index_or_cases [of TYPE_WEIGHTS key "0.5"] TYPE_WEIGHTS_bounds [of key] by auto

text \<open>The score after the category step is positive, or \<^verbatim>\<open>NaN\<close> for an inherited name.\<close>

lemma base_score_cases:
  "js_add (Num 0.5) (js_mul (js_sub (index_or TYPE_WEIGHTS key 0.5) (Num 0.5)) (Num 0.3)) = NaN
     \<and> key \<in> set Object_prototype \<or>
   (\<exists>b. js_add (Num 0.5) (js_mul (js_sub (index_or TYPE_WEIGHTS key 0.5) (Num 0.5)) (Num 0.3))
          = Num b \<and> 0 < b)"
proof -
  from type_weight_cases [of key] show ?thesis
  proof
    assume "index_or TYPE_WEIGHTS key 0.5 = NaN \<and> key \<in> set Object_prototype"
    then show ?thesis by (simp add: js_sub_def)
  next
    assume "\<exists>w. index_or TYPE_WEIGHTS key 0.5 = Num w \<and> 0.4 \<le> w \<and> w \<le> 1"
    then obtain w where w: "index_or TYPE_WEIGHTS key 0.5 = Num w" "0.4 \<le> w" by blast
    then have "0 < 0.5 + (w - 0.5) * 0.3" by argo
    with w show ?thesis by (simp add: js_sub_def)
  qed
qed

subsection \<open>Columns that are not JSON\<close>

text \<open>The parse of the facts is unguarded: its exception leaves the scoring and \<open>analyze\<close>.\<close>

lemma unparseable_facts:
  assumes "obs_facts obs = Some t" "t \<noteq> []" "JSON_parse B t = None"
  shows "calculateImportanceScore B obs now maxAgeMs = Inl SyntaxError"
  using assms by (simp add: calculateImportanceScore_def facts_length_def Let_def)

lemma unparseable_facts_analyze:
  assumes "obs \<in> set (eligible db now options)"
    and "obs_facts obs = Some t" "t \<noteq> []" "JSON_parse B t = None"
  shows "\<exists>e. analyze B db now options = Inl e"
proof -
  from analyze_loop_throws [OF assms(1) unparseable_facts [OF assms(2-4)]]
  obtain e where "analyze_loop B now (option_or (opt_maxAge options) 180 * 24 * 60 * 60 * 1000)
      (option_or (opt_minScore options) 0.6) (eligible db now options) [] = Inl e"
    by blast
  then show ?thesis
    by (simp add: analyze_def eligible_def Let_def)
qed

text \<open>The parse of the concepts is guarded: a text that is not JSON counts like no text.\<close>

lemma unparseable_concepts:
  assumes "obs_concepts obs = Some t" "JSON_parse B t = None"
  shows "calculateImportanceScore B obs now maxAgeMs =
         calculateImportanceScore B (obs\<lparr>obs_concepts := None\<rparr>) now maxAgeMs"
  using assms
  by (simp add: calculateImportanceScore_def facts_length_def conceptStep_def Let_def
      split: sum.splits)

subsection \<open>Concept tags\<close>

lemma Math_max_Num:
  "Math_max (map Num (w # ws)) = Num (Max (set (w # ws)))"
proof -
  have "foldl js_max (Num a) (map Num ws) = Num (Max (set (a # ws)))" for a
  proof (induction ws arbitrary: a)
    case Nil
    then show ?case by simp
  next
    case (Cons b ws)
    have "js_max (Num a) (Num b) = Num (max a b)"
      by (simp add: js_max_def max_def)
    then have "foldl js_max (Num a) (map Num (b # ws)) = Num (Max (set (max a b # ws)))"
      by (simp add: Cons.IH del: set_simps)
    also have "Max (set (max a b # ws)) = Max (set (a # b # ws))"
      by (cases "ws = []") (simp_all add: max.assoc)
    finally show ?case .
  qed
  then show ?thesis by (simp add: Math_max_def js_max_def)
qed

text \<open>
  A non-empty array of tags, none of them an inherited name, adds
  \<open>(maxWeight - 0.5) * 0.2\<close>, with the weights of the table and \<open>0.5\<close> for any other tag.
\<close>

lemma concept_bonus:
  assumes "JSON_parse B t = Some (JArr (map JStr tags))" and "tags \<noteq> []"
    and "set tags \<inter> set Object_prototype = {}"
  shows "conceptStep B t score =
           Some (js_add score (Num ((Max (concept_weight ` set tags) - 0.5) * 0.2)))"
proof -
  have "index_or CONCEPT_WEIGHTS tag 0.5 = Num (concept_weight tag)" if "tag \<in> set tags" for tag
    using that assms(3) by (auto simp: index_or_def concept_weight_def split: option.splits)
  then have "map (\<lambda>c. index_or CONCEPT_WEIGHTS (property_key B c) 0.5) (map JStr tags) =
             map Num (map concept_weight tags)"
    by simp
  moreover obtain w ws where "map concept_weight tags = w # ws"
    using assms(2) by (cases tags) auto
  ultimately have "Math_max (map (\<lambda>c. index_or CONCEPT_WEIGHTS (property_key B c) 0.5)
                      (map JStr tags)) = Num (Max (concept_weight ` set tags))"
    using Math_max_Num [of w ws] by (metis list.set_map)
  then show ?thesis
    using assms(1) by (simp add: conceptStep_def js_sub_def)
qed

lemma concept_weight_table:
  "concept_weight (str ''problem-solution'') = 1.0"
  "concept_weight (str ''trade-off'') = 0.9"
  "concept_weight (str ''why-it-exists'') = 0.8"
  "concept_weight (str ''gotcha'') = 0.8"
  "concept_weight (str ''how-it-works'') = 0.7"
  "concept_weight (str ''pattern'') = 0.6"
  "concept_weight (str ''what-changed'') = 0.4"
  "tag \<notin> fst ` set CONCEPT_WEIGHTS \<Longrightarrow> concept_weight tag = 0.5"
  by (simp_all add: concept_weight_def CONCEPT_WEIGHTS_def str_def map_of_eq_None_iff)

text \<open>A tag named like a member of \<^verbatim>\<open>Object.prototype\<close> turns the score into \<^verbatim>\<open>NaN\<close>.\<close>

lemma inherited_tag_NaN:
  "calculateImportanceScore sample_builtins obs_inherited_tag sample_now sample_maxAgeMs =
     Inr NaN"
  by (simp add: sample_defs scoring_defs)

lemma conceptStep_form:
  "(\<forall>score. conceptStep B t score = None) \<or>
   (\<exists>d. \<forall>score. conceptStep B t score = Some (js_add score d))"
  by (auto simp: conceptStep_def Let_def split: option.splits json.splits)

subsection \<open>Order of scores\<close>

lemma no_higher_add:
  assumes "no_higher x y"
  shows "no_higher (js_add x d) (js_add y d)"
  using assms by (cases x; cases y; cases d) (auto simp: no_higher_def)

lemma no_higher_clamp:
  assumes "no_higher x y"
  shows "no_higher (Math_max [Num 0, Math_min [Num 1, x]])
                   (Math_max [Num 0, Math_min [Num 1, y]])"
  using assms by (cases x; cases y) (auto simp: no_higher_def clamp_value)

lemma no_higher_not_lt: "no_higher x y \<Longrightarrow> \<not> js_lt y x"
  by (cases x; cases y) (auto simp: no_higher_def)

lemma age_factor:
  assumes "0 < maxAgeMs"
  shows "js_add (Num 0.5)
           (js_mul (Math_max [Num 0, js_sub (Num 1) (js_div (Num age) (Num maxAgeMs))])
                   (Num 0.5)) =
         Num (0.5 + max 0 (1 - age / maxAgeMs) * 0.5)"
  using assms by (auto simp: Math_max_def js_max_def js_sub_def)

lemma age_factor_mono:
  assumes "0 < (m::real)" "a1 \<le> a2"
  shows "0.5 + max 0 (1 - a2 / m) * 0.5 \<le> 0.5 + max 0 (1 - a1 / m) * 0.5"
proof -
  have "a1 / m \<le> a2 / m" using assms by (simp add: divide_right_mono)
  then show ?thesis by (simp add: max_def)
qed

subsection \<open>Execution\<close>

lemma delete_present:
  assumes "ident \<in> obs_id ` set db"
  shows "deleteObservationById db ident = (filter (\<lambda>row. obs_id row \<noteq> ident) db, True)"
  using assms by (simp add: deleteObservationById_def)

lemma delete_absent:
  assumes "ident \<notin> obs_id ` set db"
  shows "deleteObservationById db ident = (db, False)"
  using assms by (simp add: deleteObservationById_def)

text \<open>Every identifier is attempted, whatever the store answers.\<close>

lemma executeShrink_loop_total:
  "deleted (snd (executeShrink_loop delete db ids d f)) +
   failed (snd (executeShrink_loop delete db ids d f)) = d + f + length ids"
proof (induction ids arbitrary: db d f)
  case Nil
  then show ?case by simp
next
  case (Cons ident rest)
  obtain db' success where "delete db ident = (db', success)"
    by (cases "delete db ident")
  then show ?case
    by (cases success) (simp_all add: Cons.IH)
qed

lemma executeShrink_loop_store:
  "fst (executeShrink_loop deleteObservationById db ids d f) =
     filter (\<lambda>row. obs_id row \<notin> set ids) db"
proof (induction ids arbitrary: db d f)
  case Nil
  then show ?case by simp
next
  case (Cons ident rest)
  show ?case
  proof (cases "ident \<in> obs_id ` set db")
    case True
    then show ?thesis
      by (simp add: delete_present Cons.IH)
  next
    case False
    then have "filter (\<lambda>row. obs_id row \<notin> set (ident # rest)) db =
               filter (\<lambda>row. obs_id row \<notin> set rest) db"
      by (intro filter_cong refl) auto
    with False show ?thesis
      by (simp add: delete_absent Cons.IH del: set_simps)
  qed
qed

lemma executeShrink_loop_deleted:
  "deleted (snd (executeShrink_loop deleteObservationById db ids d f)) =
     d + card (set ids \<inter> obs_id ` set db)"
proof (induction ids arbitrary: db d f)
  case Nil
  then show ?case by simp
next
  case (Cons ident rest)
  show ?case
  proof (cases "ident \<in> obs_id ` set db")
    case True
    let ?db' = "filter (\<lambda>row. obs_id row \<noteq> ident) db"
    have ids': "obs_id ` set ?db' = obs_id ` set db - {ident}" by auto
    have "set (ident # rest) \<inter> obs_id ` set db =
          insert ident (set rest \<inter> obs_id ` set ?db')"
      using True unfolding ids' by auto
    moreover have "ident \<notin> set rest \<inter> obs_id ` set ?db'" unfolding ids' by simp
    ultimately have "card (set (ident # rest) \<inter> obs_id ` set db) =
                     Suc (card (set rest \<inter> obs_id ` set ?db'))"
      by (simp del: set_simps)
    with True show ?thesis
      by (simp add: delete_present Cons.IH del: set_simps)
  next
    case False
    then have "set (ident # rest) \<inter> obs_id ` set db = set rest \<inter> obs_id ` set db" by auto
    with False show ?thesis
      by (simp add: delete_absent Cons.IH del: set_simps)
  qed
qed

subsection \<open>Token estimate\<close>

lemma append_field_concat:
  "append_field text field =
     text @ concat (map (\<lambda>s. s @ str '' '')
                     (filter (\<lambda>s. s \<noteq> []) (case field of None \<Rightarrow> [] | Some s \<Rightarrow> [s])))"
  by (simp add: append_field_def split: option.splits)

text \<open>
  No row of the sample store has the empty project, and yet \<open>analyze\<close> with the
  empty project counts and scans all of them.
\<close>

lemma analyze_sample_empty_project:
  "analyze sample_builtins sample_db sample_now (sample_options\<lparr>opt_project := Some []\<rparr>) =
     Inr sample_result"
  by (simp add: analyze_def option_or_def scope_of_def select_observations_def
      count_observations_def sample_defs scoring_defs Array_sort_def make_candidate_def
      estimateTokens_def append_field_def generateReasons_def Number_toString_def
      decimal.simps [of 400] decimal.simps [of 40] decimal.simps [of 100]
      decimal.simps [of 10] decimal_digit)

section \<open>The claims\<close>

text \<open>
  C1. The concrete scenario of the specification: an observation of category
  \<^verbatim>\<open>change\<close>, created 400 days before \<open>now\<close>, with a narrative of 20 characters, no
  concept tags (the column is \<^verbatim>\<open>null\<close> or empty) and no facts (the column is
  \<^verbatim>\<open>null\<close>, empty or the empty array), scored with a maximum age of 180 days. The
  score is \<open>0.237\<close> (exactly so in real arithmetic, hence approximately so in
  doubles), and the reasons are the three of the specification; the fourth is absent
  because the score is not below \<open>0.2\<close>.
\<close>

theorem change_scenario:
  assumes "obs_type obs = str ''change''"
    and "obs_created_at_epoch obs = now - 400 * (24 * 60 * 60 * 1000)"
    and "obs_narrative obs = Some narrative" and "length narrative = 20"
    and "obs_concepts obs = None \<or> obs_concepts obs = Some []"
    and "obs_facts obs = None \<or> obs_facts obs = Some [] \<or>
         (\<exists>ft. obs_facts obs = Some ft \<and> JSON_parse B ft = Some (JArr []))"
    and "maxAgeMs = 180 * 24 * 60 * 60 * 1000"
  shows "calculateImportanceScore B obs now maxAgeMs = Inr (Num 0.237) \<and>
         generateReasons obs (Num 0.237) now maxAgeMs =
           [str ''400 days old'', str ''Low-priority type: change'', str ''Minimal content'']"
proof
  have facts: "facts_length B obs = Inr (Num 0)"
    using assms(6) by (auto simp: facts_length_def)
  show "calculateImportanceScore B obs now maxAgeMs = Inr (Num 0.237)"
    using assms(1-5,7) facts
    by (auto simp: calculateImportanceScore_def index_change Math_max_def Math_min_def
        js_max_def js_min_def js_sub_def Let_def)
  show "generateReasons obs (Num 0.237) now maxAgeMs =
           [str ''400 days old'', str ''Low-priority type: change'', str ''Minimal content'']"
    using assms(1-4)
    by (simp add: generateReasons_def index_change Number_toString_def decimal_400 Let_def)
       (simp add: str_def)
qed

theorem change_scenario_witness:
  "obs_type obs_change = str ''change'' \<and>
   obs_created_at_epoch obs_change = sample_now - 400 * (24 * 60 * 60 * 1000) \<and>
   obs_narrative obs_change = Some (str ''Renamed two symbols.'') \<and>
   length (str ''Renamed two symbols.'') = 20 \<and>
   obs_concepts obs_change = None \<and> obs_facts obs_change = None \<and>
   calculateImportanceScore sample_builtins obs_change sample_now sample_maxAgeMs =
     Inr (Num 0.237) \<and>
   generateReasons obs_change (Num 0.237) sample_now sample_maxAgeMs =
     [str ''400 days old'', str ''Low-priority type: change'', str ''Minimal content'']"
  using change_scenario [where obs = obs_change and now = sample_now
      and narrative = "str ''Renamed two symbols.''" and maxAgeMs = sample_maxAgeMs
      and B = sample_builtins]
  by (simp add: obs_change_def sample_maxAgeMs_def str_def)





text \<open>
  C4. \<open>executeShrink\<close> attempts every identifier of its list, whatever the store
  answers to the others: for any store operation the two counts add up to the length
  of the list. With the point-delete of the specification, the rows deleted are
  exactly the listed identifiers that the store holds (their number is the count
  \<open>deleted\<close>, and every listed row is gone afterwards); an identifier that the
  store does not hold is a counted failure, so executing the same list again gives
  no deletion and as many failures as the list is long.
\<close>

theorem executeShrink_counts:
  "deleted (snd (executeShrink delete db ids)) + failed (snd (executeShrink delete db ids))
     = length ids \<and>
   deleted (snd (executeShrink deleteObservationById db ids)) =
     card (set ids \<inter> obs_id ` set db) \<and>
   fst (executeShrink deleteObservationById db ids) =
     filter (\<lambda>row. obs_id row \<notin> set ids) db \<and>
   snd (executeShrink deleteObservationById
          (fst (executeShrink deleteObservationById db ids)) ids) =
     \<lparr>deleted = 0, failed = length ids\<rparr>"
proof -
  let ?run = "executeShrink deleteObservationById"
  let ?db' = "fst (?run db ids)"
  have total: "deleted (snd (executeShrink delete db ids)) +
               failed (snd (executeShrink delete db ids)) = length ids" for delete db
    using executeShrink_loop_total [of delete db ids 0 0] by (simp add: executeShrink_def)
  have count: "deleted (snd (?run db ids)) = card (set ids \<inter> obs_id ` set db)" for db
    using executeShrink_loop_deleted [of db ids 0 0] by (simp add: executeShrink_def)
  have store: "?db' = filter (\<lambda>row. obs_id row \<notin> set ids) db"
    by (simp add: executeShrink_def executeShrink_loop_store)
  have "set ids \<inter> obs_id ` set ?db' = {}" unfolding store by auto
  then have again: "deleted (snd (?run ?db' ids)) = 0"
    by (simp add: count)
  with total [of deleteObservationById ?db'] have "failed (snd (?run ?db' ids)) = length ids"
    by simp
  with again have "snd (?run ?db' ids) = \<lparr>deleted = 0, failed = length ids\<rparr>"
    by (cases "snd (?run ?db' ids)") simp
  with total count store show ?thesis by blast
qed

text \<open>
  C5. The claim holds for the concepts column and fails for the facts column. For an
  observation whose facts are not JSON, \<open>calculateImportanceScore\<close> returns no score
  but leaves with the \<^verbatim>\<open>SyntaxError\<close> of the unguarded \<^verbatim>\<open>JSON.parse\<close>, and so
  does \<open>analyze\<close> on a store that holds it; the same text in the concepts column is
  skipped and the observation scores as without tags.
\<close>

theorem malformed_facts_throw:
  "calculateImportanceScore sample_builtins obs_bad_facts sample_now sample_maxAgeMs =
     Inl SyntaxError \<and>
   analyze sample_builtins [obs_bad_facts] sample_now sample_options = Inl SyntaxError \<and>
   calculateImportanceScore sample_builtins obs_bad_concepts sample_now sample_maxAgeMs =
     Inr (Num 0.237)"
  by (simp add: analyze_def option_or_def scope_of_def select_observations_def
      count_observations_def sample_defs scoring_defs)

text \<open>
  C6. The claim fails for an observation without tags whose concepts column holds
  the empty array: \<^verbatim>\<open>Math.max()\<close> is \<^verbatim>\<open>-Infinity\<close>, the adjustment is infinite
  and the score is \<open>0\<close>, where the same observation with no concepts column scores
  \<open>403/900\<close>. (For a non-empty array the adjustment is the claimed one, see
  \<open>concept_bonus\<close>.)
\<close>

theorem empty_tag_list_zeroes_score:
  "calculateImportanceScore sample_builtins obs_untagged sample_now sample_maxAgeMs =
     Inr (Num 0) \<and>
   calculateImportanceScore sample_builtins (obs_untagged\<lparr>obs_concepts := None\<rparr>)
     sample_now sample_maxAgeMs = Inr (Num (403 / 900))"
  by (simp add: sample_defs scoring_defs)

text \<open>
  C7, as stated: the fields joined with separating spaces. It fails for an
  observation with only a title of four characters: the code counts five characters
  and estimates two tokens, the join has four characters and gives one.
\<close>

theorem estimateTokens_not_joined:
  "estimateTokens obs_title_only = 2 \<and> estimateTokens_spec obs_title_only = 1 \<and>
   estimateTokens obs_title_only \<noteq> estimateTokens_spec obs_title_only"
  by (simp add: estimateTokens_def estimateTokens_spec_def present_fields_def append_field_def
      obs_title_only_def str_def Let_def)

text \<open>
  C7, amended. \<open>estimateTokens\<close> is the ceiling of a quarter of the character count
  of the text in which every non-empty field (title, subtitle, narrative, facts,
  concepts, in this order) is followed by one space: the sum over these fields of
  the length plus one.
\<close>

theorem estimateTokens_trailing_spaces:
  "estimateTokens obs =
     nat \<lceil>real (length (concat (map (\<lambda>s. s @ str '' '')
                           (filter (\<lambda>s. s \<noteq> []) (present_fields obs))))) / 4\<rceil> \<and>
   estimateTokens obs =
     nat \<lceil>real (sum_list (map (\<lambda>s. length s + 1)
                           (filter (\<lambda>s. s \<noteq> []) (present_fields obs)))) / 4\<rceil>"
proof -
  have whole: "append_field (append_field (append_field (append_field (append_field []
                (obs_title obs)) (obs_subtitle obs)) (obs_narrative obs)) (obs_facts obs))
                (obs_concepts obs) =
              concat (map (\<lambda>s. s @ str '' '') (filter (\<lambda>s. s \<noteq> []) (present_fields obs)))"
    by (simp add: append_field_concat present_fields_def)
  have len: "length (concat (map (\<lambda>s. s @ str '' '') xs)) = sum_list (map (\<lambda>s. length s + 1) xs)"
    for xs :: "jsstring list"
    by (induction xs) (simp_all add: str_def)
  show ?thesis
    using whole len by (simp add: estimateTokens_def Let_def)
qed

text \<open>
  C8. The claim fails for an observation whose concepts column holds the empty array
  and whose facts column is not JSON: \<open>calculateImportanceScore\<close> returns no
  score, because the unguarded \<^verbatim>\<open>JSON.parse\<close> of the facts throws after the tag
  step.
\<close>

theorem empty_concepts_malformed_facts:
  "obs_concepts obs_untagged_bad_facts = Some (str ''[]'') \<and>
   JSON_parse sample_builtins (str ''[]'') = Some (JArr []) \<and>
   calculateImportanceScore sample_builtins obs_untagged_bad_facts sample_now sample_maxAgeMs =
     Inl SyntaxError \<and>
   calculateImportanceScore sample_builtins obs_untagged_bad_facts sample_now sample_maxAgeMs \<noteq>
     Inr (Num 0)"
  by (simp add: sample_defs scoring_defs)

text \<open>
  C9. For a positive \<open>maxAgeMs\<close> and two observations of the same category,
  concepts, narrative and facts, the older one never scores strictly higher: either
  both scorings throw the same exception, or both return, and then the older score
  is not above the younger one (both are \<^verbatim>\<open>NaN\<close>, or both are finite and ordered).
\<close>

theorem score_decreases_with_age:
  assumes "0 < maxAgeMs"
    and "obs_type older = obs_type younger"
    and "obs_concepts older = obs_concepts younger"
    and "obs_narrative older = obs_narrative younger"
    and "obs_facts older = obs_facts younger"
    and "now1 - obs_created_at_epoch younger \<le> now2 - obs_created_at_epoch older"
  shows "case (calculateImportanceScore B younger now1 maxAgeMs,
               calculateImportanceScore B older now2 maxAgeMs) of
           (Inr s1, Inr s2) \<Rightarrow> \<not> js_lt s1 s2 \<and> no_higher s2 s1
         | (Inl e1, Inl e2) \<Rightarrow> e1 = e2
         | _ \<Rightarrow> False"
proof -
  define base where
    "base = js_add (Num 0.5)
              (js_mul (js_sub (index_or TYPE_WEIGHTS (obs_type younger) 0.5) (Num 0.5)) (Num 0.3))"
  define f where "f age = 0.5 + max 0 (1 - real_of_int age / maxAgeMs) * 0.5" for age :: int
  define tags where
    "tags score = (case obs_concepts younger of
                     None \<Rightarrow> score
                   | Some text \<Rightarrow>
                       if text = [] then score
                       else (case conceptStep B text score of
                               Some score' \<Rightarrow> score'
                             | None \<Rightarrow> score))" for score
  define content where
    "content fc = js_mul (Math_min [Num 1,
                     js_div (js_add (js_div (case obs_narrative younger of
                               None \<Rightarrow> Num 0
                             | Some narrative \<Rightarrow> Num (real (length narrative))) (Num 500))
                                    (js_div fc (Num 5))) (Num 2)]) (Num 0.1)" for fc
  define a1 where "a1 = now1 - obs_created_at_epoch younger"
  define a2 where "a2 = now2 - obs_created_at_epoch older"
  have facts: "facts_length B older = facts_length B younger"
    using assms(5) by (simp add: facts_length_def)
  have calc1: "calculateImportanceScore B younger now1 maxAgeMs =
      (case facts_length B younger of
         Inl e \<Rightarrow> Inl e
       | Inr fc \<Rightarrow> Inr (Math_max [Num 0, Math_min [Num 1,
            js_add (tags (js_mul base (Num (f a1)))) (content fc)]]))"
    unfolding calculateImportanceScore_def Let_def base_def tags_def content_def f_def a1_def
      age_factor [OF assms(1)]
    by (simp split: sum.splits)
  have calc2: "calculateImportanceScore B older now2 maxAgeMs =
      (case facts_length B younger of
         Inl e \<Rightarrow> Inl e
       | Inr fc \<Rightarrow> Inr (Math_max [Num 0, Math_min [Num 1,
            js_add (tags (js_mul base (Num (f a2)))) (content fc)]]))"
    unfolding calculateImportanceScore_def Let_def base_def tags_def content_def f_def a2_def
      age_factor [OF assms(1)] assms(2,3,4) facts
    by (simp split: sum.splits)
  have "a1 \<le> a2" using assms(6) by (simp add: a1_def a2_def)
  then have f: "f a2 \<le> f a1"
    unfolding f_def using age_factor_mono [OF assms(1), of "real_of_int a1" "real_of_int a2"]
    by simp
  have aged: "no_higher (js_mul base (Num (f a2))) (js_mul base (Num (f a1)))"
  proof -
    from base_score_cases [of "obs_type younger"]
    consider "base = NaN" | b where "base = Num b" "0 < b"
      unfolding base_def by blast
    then show ?thesis
    proof cases
      case 1
      then show ?thesis by (simp add: no_higher_def)
    next
      case 2
      with f show ?thesis by (simp add: no_higher_def mult_left_mono)
    qed
  qed
  have tagged: "no_higher (tags (js_mul base (Num (f a2)))) (tags (js_mul base (Num (f a1))))"
  proof (cases "obs_concepts younger")
    case None
    with aged show ?thesis by (simp add: tags_def)
  next
    case (Some t)
    show ?thesis
    proof (cases "t = []")
      case True
      with Some aged show ?thesis by (simp add: tags_def)
    next
      case False
      from conceptStep_form [of B t] show ?thesis
      proof
        assume "\<forall>score. conceptStep B t score = None"
        with Some False aged show ?thesis by (simp add: tags_def)
      next
        assume "\<exists>d. \<forall>score. conceptStep B t score = Some (js_add score d)"
        then obtain d where "\<And>score. conceptStep B t score = Some (js_add score d)"
          by blast
        with Some False no_higher_add [OF aged, of d] show ?thesis by (simp add: tags_def)
      qed
    qed
  qed
  show ?thesis
  proof (cases "facts_length B younger")
    case (Inl e)
    then show ?thesis by (simp add: calc1 calc2)
  next
    case (Inr fc)
    have "no_higher
        (Math_max [Num 0, Math_min [Num 1, js_add (tags (js_mul base (Num (f a2)))) (content fc)]])
        (Math_max [Num 0, Math_min [Num 1, js_add (tags (js_mul base (Num (f a1)))) (content fc)]])"
      by (intro no_higher_clamp no_higher_add tagged)
    with Inr show ?thesis
      by (simp add: calc1 calc2 no_higher_not_lt)
  qed
qed

theorem score_decreases_with_age_witness:
  "0 < sample_maxAgeMs \<and>
   sample_now - obs_created_at_epoch obs_decision \<le>
     (sample_now + 30 * (24 * 60 * 60 * 1000)) - obs_created_at_epoch obs_decision \<and>
   (case (calculateImportanceScore sample_builtins obs_decision sample_now sample_maxAgeMs,
          calculateImportanceScore sample_builtins obs_decision
            (sample_now + 30 * (24 * 60 * 60 * 1000)) sample_maxAgeMs) of
      (Inr s1, Inr s2) \<Rightarrow> \<not> js_lt s1 s2 \<and> no_higher s2 s1
    | (Inl e1, Inl e2) \<Rightarrow> e1 = e2
    | _ \<Rightarrow> False)"
  using score_decreases_with_age [where maxAgeMs = sample_maxAgeMs and older = obs_decision
      and younger = obs_decision and ?now1.0 = sample_now
      and ?now2.0 = "sample_now + 30 * (24 * 60 * 60 * 1000)" and B = sample_builtins]
  by (simp add: sample_maxAgeMs_def)

text \<open>
  C10. A project that is the empty string is treated like a missing project:
  \<open>analyze\<close> gives the same result for both, the rows scanned are those of the
  whole store older than \<open>minAge\<close>, whatever their project, and the count is that
  of all rows.
\<close>

theorem empty_project_unscoped:
  "analyze B db now (options\<lparr>opt_project := Some []\<rparr>) =
     analyze B db now (options\<lparr>opt_project := None\<rparr>) \<and>
   eligible db now (options\<lparr>opt_project := Some []\<rparr>) =
     sort_key obs_created_at_epoch
       (filter (\<lambda>row. real_of_int (obs_created_at_epoch row) <
                  real_of_int now - option_or (opt_minAge options) 7 * 24 * 60 * 60 * 1000) db) \<and>
   count_observations db (scope_of (opt_project (options\<lparr>opt_project := Some []\<rparr>))) = length db"
  by (simp add: analyze_def eligible_def select_observations_def count_observations_def
      scope_of_def)

end
